theory Spec2Isabelle
  imports Main
begin

section \<open>The image-analysis batch pipeline of \<open>image_analyzer.py\<close>\<close>

text \<open>
  The script enumerates a folder, filters the entries by extension, and drives each image
  through four stages: size validation, upload to S3, label detection with Rekognition,
  and a write to DynamoDB. The three clients, the file system and the Python built-ins
  \<open>str\<close> and \<open>format\<close> are collaborators of the script; they are parameters of the
  model. Everything the script itself decides is translated below. Two parts of the
  module run before the loop and decide nothing: the dump of the environment (lines 6
  to 9) and the creation of the clients (lines 19 to 22); they are left out. The listing
  of the folder is the list of names that \<open>main\<close> takes.
\<close>

subsection \<open>Python values, exceptions and string helpers\<close>

text \<open>
  An exception is a value. \<open>ClientError\<close> is the only class the script's handlers name;
  \<open>KeyError\<close> is what a missing dictionary key raises; \<open>OtherError cls msg\<close> stands for
  an exception of any other class. The string carried by \<open>ClientError\<close> is \<open>str(e)\<close>.
\<close>

datatype py_exn = ClientError string | KeyError string | OtherError string string

text \<open>
  The values of a \<open>Dict[str, Any]\<close>. The type \<open>'f\<close> of floats, and what \<open>str\<close> and
  \<open>format\<close> make of a value, are left to the runtime record below.
\<close>

datatype 'f pyval =
    PNone
  | PStr string
  | PInt int
  | PFloat 'f
  | PList "'f pyval list"
  | PDict "(string \<times> 'f pyval) list"

text \<open>\<open>s.endswith(suffix)\<close> and \<open>s.endswith((a, b, ...))\<close>.\<close>

definition endswith :: "string \<Rightarrow> string \<Rightarrow> bool" where
  "endswith s suf \<longleftrightarrow> length suf \<le> length s \<and> drop (length s - length suf) s = suf"

definition endswith_any :: "string \<Rightarrow> string list \<Rightarrow> bool" where
  "endswith_any s sufs \<longleftrightarrow> list_ex (endswith s) sufs"

text \<open>\<open>s.startswith(prefix)\<close>.\<close>

definition startswith :: "string \<Rightarrow> string \<Rightarrow> bool" where
  "startswith s pre \<longleftrightarrow> take (length pre) s = pre"

text \<open>\<open>s.split(c)\<close> for a one-character separator: never the empty list.\<close>

fun split_on :: "char \<Rightarrow> string \<Rightarrow> string list" where
  "split_on c [] = [[]]"
| "split_on c (x # xs) =
     (if x = c then [] # split_on c xs
      else (case split_on c xs of
              [] \<Rightarrow> [[x]]
            | w # ws \<Rightarrow> (x # w) # ws))"

text \<open>\<open>os.path.basename\<close> (POSIX): what follows the last slash.\<close>

definition basename :: "string \<Rightarrow> string" where
  "basename p = rev (takeWhile (\<lambda>c. c \<noteq> CHR ''/'') (rev p))"

text \<open>\<open>os.path.join(a, b)\<close> (POSIX, two arguments).\<close>

definition os_path_join :: "string \<Rightarrow> string \<Rightarrow> string" where
  "os_path_join a b =
     (if startswith b ''/'' then b
      else if a = [] \<or> endswith a ''/'' then a @ b
      else a @ ''/'' @ b)"

text \<open>The format specification \<open><n\<close> applied to a string: pad on the right to width \<open>n\<close>.\<close>

definition ljust :: "nat \<Rightarrow> string \<Rightarrow> string" where
  "ljust n s = s @ replicate (n - length s) CHR '' ''"

text \<open>How an f-string renders a value that is a string or \<open>None\<close>.\<close>

definition fmt_opt :: "string option \<Rightarrow> string" where
  "fmt_opt v = (case v of None \<Rightarrow> ''None'' | Some s \<Rightarrow> s)"

subsection \<open>Constants and configuration (lines 12 to 17)\<close>

definition PREFIX :: string where
  "PREFIX = ''rekognition-input/''"

definition IMAGES_FOLDER :: string where
  "IMAGES_FOLDER = ''images/''"

text \<open>
  \<open>os.getenv(k)\<close> is \<open>env k\<close>, \<open>None\<close> when the variable is unset;
  \<open>os.getenv(k, d)\<close> is \<open>getenv_default env k d\<close>.
\<close>

definition getenv_default :: "(string \<rightharpoonup> string) \<Rightarrow> string \<Rightarrow> string \<Rightarrow> string" where
  "getenv_default env k d = (case env k of None \<Rightarrow> d | Some v \<Rightarrow> v)"

record config =
  REGION :: "string option"
  BUCKET :: "string option"
  DYNAMODB :: "string option"
  BRANCH :: string

text \<open>The module-level assignments, evaluated once when the script starts.\<close>

definition load_config :: "(string \<rightharpoonup> string) \<Rightarrow> config" where
  "load_config env =
     \<lparr> REGION = env ''AWS_REGION'',
       BUCKET = env ''S3_BUCKET'',
       DYNAMODB = env ''DYNAMODB_TABLE'',
       BRANCH = last (split_on CHR ''/'' (getenv_default env ''GITHUB_REF'' ''refs/heads/main'')) \<rparr>"

subsection \<open>Responses, items, events\<close>

text \<open>A label is a \<open>Dict[str, Any]\<close>: an association list, looked up with \<open>map_of\<close>.\<close>

type_synonym 'f label = "(string \<times> 'f pyval) list"

text \<open>
  The response of \<open>detect_labels\<close> is a dictionary; the script reads the keys
  \<open>Labels\<close> and \<open>ResponseMetadata\<close>, and under the latter \<open>HTTPHeaders\<close> and there
  \<open>date\<close>. A key that is absent is \<open>None\<close> in the record.
\<close>

record response_metadata =
  HTTPHeaders :: "(string \<times> string) list option"

record 'f response =
  Labels :: "'f label list option"
  ResponseMetadata :: "response_metadata option"

text \<open>DynamoDB's attribute encoding: \<open>{'S': v}\<close>, \<open>{'N': s}\<close>, \<open>{'L': [...]}\<close>, \<open>{'M': {...}}\<close>.\<close>

datatype 'f attr =
    AttrS "'f pyval"
  | AttrN string
  | AttrL "'f attr list"
  | AttrM "(string \<times> 'f attr) list"

type_synonym 'f item = "(string \<times> 'f attr) list"

text \<open>
  What the script does to the outside, in order: a line printed, and a call of
  \<open>os.path.getsize(path)\<close>, \<open>upload_file(Filename, Bucket, Key)\<close>,
  \<open>detect_labels\<close> (bucket and object name) or \<open>put_item(TableName, Item)\<close>.
\<close>

datatype 'f event =
    Print string
  | GetSize string
  | UploadFile string "string option" string
  | DetectLabels "string option" string
  | PutItem "string option" "'f item"

text \<open>
  The collaborators. Each call reads the state \<open>'w\<close> of the outside world and returns
  an exception or a value; the three service calls also change the world.
\<close>

record ('f, 'w) runtime =
  getsize :: "string \<Rightarrow> 'w \<Rightarrow> py_exn + nat"
  upload_file :: "string \<Rightarrow> string option \<Rightarrow> string \<Rightarrow> 'w \<Rightarrow> (py_exn + unit) \<times> 'w"
  detect_labels :: "string option \<Rightarrow> string \<Rightarrow> 'w \<Rightarrow> (py_exn + 'f response) \<times> 'w"
  put_item :: "string option \<Rightarrow> 'f item \<Rightarrow> 'w \<Rightarrow> (py_exn + unit) \<times> 'w"
  py_str :: "'f pyval \<Rightarrow> string"
  py_format :: "'f pyval \<Rightarrow> string \<Rightarrow> py_exn + string"

record ('f, 'w) state =
  world :: 'w
  trace :: "'f event list"

definition emit :: "'f event \<Rightarrow> ('f, 'w) state \<Rightarrow> ('f, 'w) state" where
  "emit ev s = s\<lparr>trace := trace s @ [ev]\<rparr>"

text \<open>The calls of the script to the services, as opposed to what it prints.\<close>

fun is_service_call :: "'f event \<Rightarrow> bool" where
  "is_service_call (UploadFile _ _ _) = True"
| "is_service_call (DetectLabels _ _) = True"
| "is_service_call (PutItem _ _) = True"
| "is_service_call _ = False"

definition service_calls :: "('f, 'w) state \<Rightarrow> 'f event list" where
  "service_calls s = filter is_service_call (trace s)"

subsection \<open>\<open>upload_image_to_s3\<close> (lines 24 to 42)\<close>

definition upload_image_to_s3 ::
  "('f, 'w) runtime \<Rightarrow> config \<Rightarrow> string \<Rightarrow> ('f, 'w) state \<Rightarrow> (py_exn + bool) \<times> ('f, 'w) state" where
  "upload_image_to_s3 rt cfg image_path s =
     (let key = PREFIX @ basename image_path;
          (r, w') = upload_file rt image_path (BUCKET cfg) key (world s);
          s' = emit (UploadFile image_path (BUCKET cfg) key) (s\<lparr>world := w'\<rparr>)
      in case r of
           Inr _ \<Rightarrow> (Inr True, s')
         | Inl (ClientError e) \<Rightarrow>
             (Inr False, emit (Print (''Error uploading '' @ image_path @ '' to S3: '' @ e)) s')
         | Inl x \<Rightarrow> (Inl x, s'))"

subsection \<open>\<open>analyze_image_using_rekognition\<close> (lines 44 to 65)\<close>

text \<open>
  \<open>response['Labels']\<close> is inside the \<open>try\<close>, so a response without that key raises
  \<open>KeyError\<close> there; the handler does not catch it.
\<close>

definition analyze_image_using_rekognition ::
  "('f, 'w) runtime \<Rightarrow> config \<Rightarrow> string \<Rightarrow> ('f, 'w) state
     \<Rightarrow> (py_exn + 'f label list \<times> 'f response option) \<times> ('f, 'w) state" where
  "analyze_image_using_rekognition rt cfg image_name s =
     (let name = PREFIX @ image_name;
          (r, w') = detect_labels rt (BUCKET cfg) name (world s);
          s' = emit (DetectLabels (BUCKET cfg) name) (s\<lparr>world := w'\<rparr>)
      in case r of
           Inr response \<Rightarrow>
             (case Labels response of
                None \<Rightarrow> (Inl (KeyError ''Labels''), s')
              | Some labels \<Rightarrow> (Inr (labels, Some response), s'))
         | Inl (ClientError e) \<Rightarrow>
             (Inr ([], None),
              emit (Print (''Error analyzing '' @ image_name @ '' with Rekognition: '' @ e)) s')
         | Inl x \<Rightarrow> (Inl x, s'))"

subsection \<open>\<open>store_results_in_dynamodb\<close> (lines 67 to 96)\<close>

text \<open>One element of the list comprehension: \<open>label['Name']\<close> is evaluated first.\<close>

definition serialize_label :: "('f, 'w) runtime \<Rightarrow> 'f label \<Rightarrow> py_exn + 'f attr" where
  "serialize_label rt label =
     (case map_of label ''Name'' of
        None \<Rightarrow> Inl (KeyError ''Name'')
      | Some n \<Rightarrow>
          (case map_of label ''Confidence'' of
             None \<Rightarrow> Inl (KeyError ''Confidence'')
           | Some c \<Rightarrow>
               Inr (AttrM [(''Name'', AttrS n), (''Confidence'', AttrN (py_str rt c))])))"

fun serialize_labels :: "('f, 'w) runtime \<Rightarrow> 'f label list \<Rightarrow> py_exn + 'f attr list" where
  "serialize_labels rt [] = Inr []"
| "serialize_labels rt (label # labels) =
     (case serialize_label rt label of
        Inl e \<Rightarrow> Inl e
      | Inr a \<Rightarrow>
          (case serialize_labels rt labels of
             Inl e \<Rightarrow> Inl e
           | Inr as \<Rightarrow> Inr (a # as)))"

definition store_results_in_dynamodb ::
  "('f, 'w) runtime \<Rightarrow> config \<Rightarrow> string \<Rightarrow> 'f label list \<Rightarrow> string \<Rightarrow> ('f, 'w) state
     \<Rightarrow> (py_exn + bool) \<times> ('f, 'w) state" where
  "store_results_in_dynamodb rt cfg image_name labels timestamp s =
     (case serialize_labels rt labels of
        Inl x \<Rightarrow> (Inl x, s)
      | Inr labels_confidences \<Rightarrow>
          (let item = [(''filename'', AttrS (PStr image_name)),
                       (''Labels'', AttrL labels_confidences),
                       (''timestamp'', AttrS (PStr timestamp)),
                       (''branch'', AttrS (PStr (BRANCH cfg)))];
               (r, w') = put_item rt (DYNAMODB cfg) item (world s);
               s' = emit (PutItem (DYNAMODB cfg) item) (s\<lparr>world := w'\<rparr>)
           in case r of
                Inr _ \<Rightarrow> (Inr True, s')
              | Inl (ClientError e) \<Rightarrow>
                  (Inr False,
                   emit (Print (''Error storing results for '' @ image_name @ '' in DynamoDB: '' @ e)) s')
              | Inl x \<Rightarrow> (Inl x, s')))"

subsection \<open>\<open>image_size_validator\<close> (lines 98 to 108)\<close>

text \<open>The parameter \<open>max_size\<close> is optional; \<open>None\<close> is a call that leaves it out.\<close>

definition max_size_default :: int where
  "max_size_default = 5242880"

definition image_size_validator ::
  "('f, 'w) runtime \<Rightarrow> string \<Rightarrow> int option \<Rightarrow> ('f, 'w) state \<Rightarrow> (py_exn + bool) \<times> ('f, 'w) state" where
  "image_size_validator rt image_path max_size s =
     (let m = (case max_size of None \<Rightarrow> max_size_default | Some v \<Rightarrow> v);
          s' = emit (GetSize image_path) s
      in case getsize rt image_path (world s) of
           Inl x \<Rightarrow> (Inl x, s')
         | Inr n \<Rightarrow> (Inr (int n \<le> m), s'))"

subsection \<open>The main loop (lines 111 to 153)\<close>

text \<open>
  Lines 139 to 142: the rows of the table. A label without both keys prints nothing;
  \<open>format\<close> may raise on a value it has no such format for.
\<close>

fun print_rows ::
  "('f, 'w) runtime \<Rightarrow> 'f label list \<Rightarrow> ('f, 'w) state \<Rightarrow> (py_exn + unit) \<times> ('f, 'w) state" where
  "print_rows rt [] s = (Inr (), s)"
| "print_rows rt (label # labels) s =
     (case (map_of label ''Name'', map_of label ''Confidence'') of
        (Some n, Some c) \<Rightarrow>
          (case py_format rt n ''<20'' of
             Inl x \<Rightarrow> (Inl x, s)
           | Inr a \<Rightarrow>
               (case py_format rt c ''<15.2f'' of
                  Inl x \<Rightarrow> (Inl x, s)
                | Inr b \<Rightarrow> print_rows rt labels (emit (Print (a @ '' '' @ b)) s)))
      | _ \<Rightarrow> print_rows rt labels s)"

text \<open>Line 145: the timestamp of a response that is not \<open>None\<close>.\<close>

definition timestamp_of :: "'f response \<Rightarrow> py_exn + string" where
  "timestamp_of response =
     (case ResponseMetadata response of
        None \<Rightarrow> Inr ''Unknown''
      | Some md \<Rightarrow>
          (case HTTPHeaders md of
             None \<Rightarrow> Inl (KeyError ''HTTPHeaders'')
           | Some headers \<Rightarrow>
               (case map_of headers ''date'' of
                  None \<Rightarrow> Inl (KeyError ''date'')
                | Some d \<Rightarrow> Inr d)))"

definition image_suffixes :: "string list" where
  "image_suffixes = [''.jpg'', ''.jpeg'', ''.png'']"

text \<open>Lines 135 to 151: what follows a successful analysis.\<close>

definition report_and_store ::
  "('f, 'w) runtime \<Rightarrow> config \<Rightarrow> string \<Rightarrow> 'f label list \<Rightarrow> 'f response \<Rightarrow> ('f, 'w) state
     \<Rightarrow> (py_exn + unit) \<times> ('f, 'w) state" where
  "report_and_store rt cfg img labels response s =
     (let s1 = emit (Print (CHR 0x0A # ''Rekognition response for '' @ [CHR 0x27] @ img @ [CHR 0x27] @ '':'')) s;
          s2 = emit (Print (ljust 20 ''Label'' @ '' '' @ ljust 15 ''Confidence (%)'')) s1;
          s3 = emit (Print (replicate 35 CHR ''-'')) s2
      in case print_rows rt labels s3 of
           (Inl x, s4) \<Rightarrow> (Inl x, s4)
         | (Inr _, s4) \<Rightarrow>
             (case timestamp_of response of
                Inl x \<Rightarrow> (Inl x, s4)
              | Inr timestamp \<Rightarrow>
                  (case store_results_in_dynamodb rt cfg (basename img) labels timestamp s4 of
                     (Inl x, s5) \<Rightarrow> (Inl x, s5)
                   | (Inr True, s5) \<Rightarrow>
                       (Inr (), emit (Print (CHR 0x0A # ''Successfully stored results for ''
                                  @ [CHR 0x27] @ img @ [CHR 0x27] @ '' in DynamoDB.'')) s5)
                   | (Inr False, s5) \<Rightarrow>
                       (Inr (), emit (Print (''Failed to store results for ''
                                  @ [CHR 0x27] @ img @ [CHR 0x27] @ '' in DynamoDB.'')) s5))))"

text \<open>
  The body of the \<open>for\<close> loop. \<open>Inr ()\<close> is the end of the iteration, by \<open>continue\<close> or by
  reaching the end of the body; \<open>Inl x\<close> is an exception that leaves the body.
\<close>

definition process_image ::
  "('f, 'w) runtime \<Rightarrow> config \<Rightarrow> string \<Rightarrow> ('f, 'w) state \<Rightarrow> (py_exn + unit) \<times> ('f, 'w) state" where
  "process_image rt cfg img s =
     (if endswith_any img image_suffixes then
        (let image_path = os_path_join IMAGES_FOLDER img
         in case image_size_validator rt image_path None s of
              (Inl x, s1) \<Rightarrow> (Inl x, s1)
            | (Inr False, s1) \<Rightarrow>
                (Inr (), emit (Print (''Image '' @ image_path @ '' is too large. Skipping...'')) s1)
            | (Inr True, s1) \<Rightarrow>
                (let s2 = emit (Print (CHR 0x0A # ''Uploading '' @ image_path @ '' to S3 bucket ''
                                  @ fmt_opt (BUCKET cfg) @ '' with prefix '' @ PREFIX)) s1
                 in case upload_image_to_s3 rt cfg image_path s2 of
                      (Inl x, s3) \<Rightarrow> (Inl x, s3)
                    | (Inr False, s3) \<Rightarrow>
                        (Inr (), emit (Print (''Failed to upload '' @ image_path
                                   @ '' to S3. Skipping analysis.'')) s3)
                    | (Inr True, s3) \<Rightarrow>
                        (case analyze_image_using_rekognition rt cfg (basename img) s3 of
                           (Inl x, s4) \<Rightarrow> (Inl x, s4)
                         | (Inr (labels, response), s4) \<Rightarrow>
                             \<comment> \<open>\<open>if not labels or response is None\<close>\<close>
                             (case (labels, response) of
                                (_ # _, Some resp) \<Rightarrow> report_and_store rt cfg img labels resp s4
                              | _ \<Rightarrow>
                                  (Inr (), emit (Print (''Failed to analyze '' @ image_path
                                             @ ''. Skipping analysis.'')) s4)))))
      else (Inr (), emit (Print (''Skipping non-image file: '' @ img)) s))"

text \<open>
  The loop over \<open>os.listdir(IMAGES_FOLDER)\<close>. The result is \<open>None\<close> when the loop has
  gone through every entry, and the exception that ended the run otherwise.
\<close>

fun main_loop ::
  "('f, 'w) runtime \<Rightarrow> config \<Rightarrow> string list \<Rightarrow> ('f, 'w) state \<Rightarrow> py_exn option \<times> ('f, 'w) state" where
  "main_loop rt cfg [] s = (None, s)"
| "main_loop rt cfg (img # images) s =
     (case process_image rt cfg img s of
        (Inl x, s') \<Rightarrow> (Some x, s')
      | (Inr _, s') \<Rightarrow> main_loop rt cfg images s')"

definition main ::
  "('f, 'w) runtime \<Rightarrow> (string \<rightharpoonup> string) \<Rightarrow> string list \<Rightarrow> 'w \<Rightarrow> py_exn option \<times> ('f, 'w) state" where
  "main rt env listdir w = main_loop rt (load_config env) listdir \<lparr>world = w, trace = []\<rparr>"

subsection \<open>Trace extension\<close>

text \<open>
  \<open>extends P s s'\<close>: the trace of \<open>s'\<close> is the trace of \<open>s\<close> followed by events that all
  satisfy \<open>P\<close>.
\<close>

definition extends :: "('f event \<Rightarrow> bool) \<Rightarrow> ('f, 'w) state \<Rightarrow> ('f, 'w) state \<Rightarrow> bool" where
  "extends P s s' \<longleftrightarrow> (\<exists>evs. trace s' = trace s @ evs \<and> list_all P evs)"

text \<open>The events that a step from \<open>s\<close> to \<open>s'\<close> has added.\<close>

definition new_events :: "('f, 'w) state \<Rightarrow> ('f, 'w) state \<Rightarrow> 'f event list" where
  "new_events s s' = drop (length (trace s)) (trace s')"

subsection \<open>Labels the table can print\<close>


subsection \<open>A concrete runtime\<close>

text \<open>
  A small world for running the script by hand: floats are given by their \<open>repr\<close>, the
  world counts the service calls, \<open>b.png\<close> has 6 MiB and every other file 4 MiB, the
  upload of \<open>d.png\<close> is refused, \<open>a.jpg\<close> shows a cat, \<open>e.jpeg\<close> has no labels,
  the response for \<open>g.png\<close> has no metadata, and any other object is rejected by the
  analysis. The transfer layer behind \<open>upload_file\<close> turns the \<open>ClientError\<close> of a
  refused upload into its own \<open>S3UploadFailedError\<close>, which is not a \<open>ClientError\<close>;
  that is what the refused upload raises here.
\<close>

definition demo_labels :: "string label list" where
  "demo_labels =
     [[(''Name'', PStr ''Cat''), (''Confidence'', PFloat ''98.2'')],
      [(''Name'', PStr ''Animal''), (''Confidence'', PFloat ''95.0'')]]"

definition demo_response :: "string response" where
  "demo_response =
     \<lparr> Labels = Some demo_labels,
       ResponseMetadata = Some \<lparr> HTTPHeaders = Some [(''date'', ''Wed, 04 Nov 2026 09:00:00 GMT'')] \<rparr> \<rparr>"

definition demo_runtime :: "(string, nat) runtime" where
  "demo_runtime =
     \<lparr> getsize = (\<lambda>p w. if p = ''images/b.png'' then Inr 6291456 else Inr 4194304),
       upload_file = (\<lambda>p b k w.
          if k = ''rekognition-input/d.png'' then
            (Inl (OtherError ''S3UploadFailedError''
               (''Failed to upload images/d.png to bucket/rekognition-input/d.png: ''
                @ ''An error occurred (AccessDenied) when calling the PutObject operation: ''
                @ ''Access Denied'')), Suc w)
          else (Inr (), Suc w)),
       detect_labels = (\<lambda>b k w.
          if k = ''rekognition-input/a.jpg'' then (Inr demo_response, Suc w)
          else if k = ''rekognition-input/e.jpeg'' then
            (Inr \<lparr> Labels = Some [], ResponseMetadata = None \<rparr>, Suc w)
          else if k = ''rekognition-input/g.png'' then
            (Inr \<lparr> Labels = Some [[(''Name'', PStr ''Dog''), (''Confidence'', PFloat ''87.5'')]],
                   ResponseMetadata = None \<rparr>, Suc w)
          else (Inl (ClientError ''InvalidS3ObjectException''), Suc w)),
       put_item = (\<lambda>t i w. (Inr (), Suc w)),
       py_str = (\<lambda>v. case v of PFloat r \<Rightarrow> r | PStr r \<Rightarrow> r | _ \<Rightarrow> ''None''),
       py_format = (\<lambda>v spec. case v of
            PStr r \<Rightarrow> if spec = ''<20'' then Inr (ljust 20 r) else Inl (OtherError ''ValueError'' spec)
          | PFloat r \<Rightarrow> Inr (ljust 15 r)
          | _ \<Rightarrow> Inl (OtherError ''TypeError'' spec)) \<rparr>"

text \<open>The same world without a network: every upload raises a connection error.\<close>

definition offline_runtime :: "(string, nat) runtime" where
  "offline_runtime =
     demo_runtime\<lparr>upload_file := (\<lambda>p b k w.
        (Inl (OtherError ''EndpointConnectionError'' ''Could not connect to the endpoint URL''), w))\<rparr>"

definition demo_config :: config where
  "demo_config = load_config [''S3_BUCKET'' \<mapsto> ''bucket'', ''DYNAMODB_TABLE'' \<mapsto> ''table'']"

section \<open>Properties\<close>

lemma emit_simps [simp]:
  "world (emit ev s) = world s" "trace (emit ev s) = trace s @ [ev]"
  by (simp_all add: emit_def)

subsection \<open>Strings and paths\<close>

lemma endswith_iff: "endswith s suf \<longleftrightarrow> (\<exists>stem. s = stem @ suf)"
proof
  assume "endswith s suf"
  then have "s = take (length s - length suf) s @ suf"
    unfolding endswith_def by (metis append_take_drop_id)
  then show "\<exists>stem. s = stem @ suf" ..
next
  assume "\<exists>stem. s = stem @ suf"
  then show "endswith s suf" by (auto simp: endswith_def)
qed

lemma is_image_iff:
  "endswith_any img image_suffixes \<longleftrightarrow>
     (\<exists>stem. img = stem @ ''.jpg'' \<or> img = stem @ ''.jpeg'' \<or> img = stem @ ''.png'')"
  unfolding endswith_any_def image_suffixes_def by (auto simp: endswith_iff)

lemma takeWhile_rev_all: "\<forall>y\<in>set xs. P y \<Longrightarrow> takeWhile P (rev xs) = rev xs"
  by (simp add: takeWhile_eq_all_conv)

lemma basename_no_slash: "CHR ''/'' \<notin> set name \<Longrightarrow> basename name = name"
proof -
  assume "CHR ''/'' \<notin> set name"
  then have "\<forall>y\<in>set name. y \<noteq> CHR ''/''" by auto
  then have "takeWhile (\<lambda>c. c \<noteq> CHR ''/'') (rev name) = rev name"
    by (rule takeWhile_rev_all)
  then show ?thesis unfolding basename_def by (simp only: rev_rev_ident)
qed

lemma basename_after_slash: "basename (dir @ CHR ''/'' # name) = basename name"
proof (cases "\<forall>y\<in>set name. y \<noteq> CHR ''/''")
  case True
  then have "takeWhile (\<lambda>c. c \<noteq> CHR ''/'') (rev name) = rev name"
    by (rule takeWhile_rev_all)
  moreover have "takeWhile (\<lambda>c. c \<noteq> CHR ''/'') (rev (dir @ CHR ''/'' # name)) = rev name"
    using True by (simp add: takeWhile_append)
  ultimately show ?thesis unfolding basename_def by (simp only:)
next
  case False
  then show ?thesis by (auto simp: basename_def takeWhile_append)
qed

lemma basename_join [simp]: "basename (os_path_join IMAGES_FOLDER img) = basename img"
proof -
  have "os_path_join IMAGES_FOLDER img = img \<or> os_path_join IMAGES_FOLDER img = ''images'' @ ''/'' @ img"
    by (simp add: os_path_join_def IMAGES_FOLDER_def endswith_def)
  then show ?thesis using basename_after_slash[of "''images''" img] by auto
qed

subsection \<open>How each function extends the trace\<close>

lemma extends_refl: "extends P s s"
  by (simp add: extends_def)

lemma extends_trans: "extends P s s1 \<Longrightarrow> extends P s1 s2 \<Longrightarrow> extends P s s2"
  by (auto simp: extends_def)

lemma extends_emit: "extends P s s1 \<Longrightarrow> P ev \<Longrightarrow> extends P s (emit ev s1)"
  by (auto simp: extends_def)

lemma validator_extends:
  assumes "image_size_validator rt p m s = (r, s')" and "P (GetSize p)"
  shows "extends P s s'"
  using assms
  by (auto simp: image_size_validator_def Let_def extends_def split: sum.splits)

lemma upload_extends:
  assumes "upload_image_to_s3 rt cfg p s = (r, s')"
    and "\<And>m. P (Print m)"
    and "P (UploadFile p (BUCKET cfg) (PREFIX @ basename p))"
  shows "extends P s s'"
  using assms
  by (auto simp: upload_image_to_s3_def Let_def extends_def split: sum.splits prod.splits py_exn.splits)

lemma analyze_extends:
  assumes "analyze_image_using_rekognition rt cfg n s = (r, s')"
    and "\<And>m. P (Print m)"
    and "P (DetectLabels (BUCKET cfg) (PREFIX @ n))"
  shows "extends P s s'"
  using assms
  by (auto simp: analyze_image_using_rekognition_def Let_def extends_def
      split: sum.splits prod.splits py_exn.splits option.splits)

lemma store_extends:
  assumes "store_results_in_dynamodb rt cfg n labels ts s = (r, s')"
    and "\<And>m. P (Print m)"
    and "\<And>lc. serialize_labels rt labels = Inr lc \<Longrightarrow>
            P (PutItem (DYNAMODB cfg)
              [(''filename'', AttrS (PStr n)), (''Labels'', AttrL lc),
               (''timestamp'', AttrS (PStr ts)), (''branch'', AttrS (PStr (BRANCH cfg)))])"
  shows "extends P s s'"
  using assms
  by (auto simp: store_results_in_dynamodb_def Let_def extends_def
      split: sum.splits prod.splits py_exn.splits option.splits)

lemma print_rows_extends:
  assumes "print_rows rt labels s = (r, s')" and "\<And>m. P (Print m)"
  shows "extends P s s'"
  using assms
proof (induction labels arbitrary: s)
  case Nil
  then show ?case by (simp add: extends_refl)
next
  case (Cons label labels)
  show ?case
  proof (cases "print_rows rt (label # labels) s = print_rows rt labels s")
    case True
    with Cons show ?thesis by simp
  next
    case False
    then obtain n c where nc: "map_of label ''Name'' = Some n" "map_of label ''Confidence'' = Some c"
      by (auto split: option.splits)
    show ?thesis
    proof (cases "py_format rt n ''<20''")
      case (Inl x)
      with nc Cons.prems show ?thesis by (auto simp: extends_refl)
    next
      case a: (Inr a)
      show ?thesis
      proof (cases "py_format rt c ''<15.2f''")
        case (Inl x)
        with nc a Cons.prems show ?thesis by (auto simp: extends_refl)
      next
        case (Inr b)
        with nc a Cons.prems
        have "print_rows rt labels (emit (Print (a @ '' '' @ b)) s) = (r, s')" by simp
        then have "extends P (emit (Print (a @ '' '' @ b)) s) s'"
          using Cons.IH Cons.prems(2) by blast
        moreover have "extends P s (emit (Print (a @ '' '' @ b)) s)"
          by (simp add: extends_emit extends_refl Cons.prems(2))
        ultimately show ?thesis by (blast intro: extends_trans)
      qed
    qed
  qed
qed

lemma report_and_store_extends:
  assumes run: "report_and_store rt cfg img labels resp s = (r, s')"
    and pr: "\<And>m. P (Print m)"
    and put: "\<And>lc ts. timestamp_of resp = Inr ts \<Longrightarrow> serialize_labels rt labels = Inr lc \<Longrightarrow>
            P (PutItem (DYNAMODB cfg)
              [(''filename'', AttrS (PStr (basename img))), (''Labels'', AttrL lc),
               (''timestamp'', AttrS (PStr ts)), (''branch'', AttrS (PStr (BRANCH cfg)))])"
  shows "extends P s s'"
proof -
  define s3 where "s3 = emit (Print (replicate 35 CHR ''-''))
     (emit (Print (ljust 20 ''Label'' @ '' '' @ ljust 15 ''Confidence (%)''))
       (emit (Print (CHR 0x0A # ''Rekognition response for '' @ [CHR 0x27] @ img @ [CHR 0x27] @ '':'')) s))"
  have e3: "extends P s s3"
    unfolding s3_def by (intro extends_emit extends_refl pr)
  obtain r4 s4 where p4: "print_rows rt labels s3 = (r4, s4)" by fastforce
  have e4: "extends P s3 s4" using print_rows_extends[OF p4] pr by blast
  show ?thesis
  proof (cases r4)
    case (Inl x)
    with run p4 have "s' = s4"
      by (simp add: report_and_store_def Let_def s3_def)
    with e3 e4 show ?thesis by (blast intro: extends_trans)
  next
    case r4: (Inr u)
    show ?thesis
    proof (cases "timestamp_of resp")
      case (Inl x)
      with run p4 r4 have "s' = s4"
        by (simp add: report_and_store_def Let_def s3_def)
      with e3 e4 show ?thesis by (blast intro: extends_trans)
    next
      case (Inr ts)
      obtain r5 s5 where p5: "store_results_in_dynamodb rt cfg (basename img) labels ts s4 = (r5, s5)"
        by fastforce
      have e5: "extends P s4 s5" using store_extends[OF p5] pr put[OF Inr] by blast
      have "s' = s5 \<or> (\<exists>m. s' = emit (Print m) s5)"
        using run p4 r4 Inr p5
        by (auto simp: report_and_store_def Let_def s3_def split: sum.splits bool.splits if_splits)
      then have "extends P s5 s'"
        by (auto intro: extends_emit extends_refl pr)
      with e3 e4 e5 show ?thesis by (blast intro: extends_trans)
    qed
  qed
qed

lemma analyze_result:
  assumes "analyze_image_using_rekognition rt cfg n s = (Inr (labels, Some resp), s')"
  shows "\<exists>w'. detect_labels rt (BUCKET cfg) (PREFIX @ n) (world s) = (Inr resp, w')
            \<and> Labels resp = Some labels"
  using assms
  by (auto simp: analyze_image_using_rekognition_def Let_def
      split: sum.splits prod.splits py_exn.splits option.splits)

lemma process_image_after_validation:
  assumes run: "process_image rt cfg img s = (r, s')"
    and img: "endswith_any img image_suffixes"
    and p1: "image_size_validator rt (os_path_join IMAGES_FOLDER img) None s = (r1, s1)"
    and pr: "\<And>m. P (Print m)"
    and up: "P (UploadFile (os_path_join IMAGES_FOLDER img) (BUCKET cfg) (PREFIX @ basename img))"
    and dl: "P (DetectLabels (BUCKET cfg) (PREFIX @ basename img))"
    and put: "\<And>w w' resp labels lc ts.
            detect_labels rt (BUCKET cfg) (PREFIX @ basename img) w = (Inr resp, w') \<Longrightarrow>
            Labels resp = Some labels \<Longrightarrow> timestamp_of resp = Inr ts \<Longrightarrow>
            serialize_labels rt labels = Inr lc \<Longrightarrow>
            P (PutItem (DYNAMODB cfg)
              [(''filename'', AttrS (PStr (basename img))), (''Labels'', AttrL lc),
               (''timestamp'', AttrS (PStr ts)), (''branch'', AttrS (PStr (BRANCH cfg)))])"
  shows "extends P s1 s'"
proof -
  define path where "path = os_path_join IMAGES_FOLDER img"
  note p1 = p1[folded path_def]
  show ?thesis
  proof (cases "r1 = Inr True")
    case False
    then have "s' = s1 \<or> (\<exists>m. s' = emit (Print m) s1)"
      using run img p1
      by (auto simp: process_image_def Let_def path_def split: sum.splits bool.splits if_splits)
    then show ?thesis by (auto intro: extends_emit extends_refl pr)
  next
    case r1: True
    define s2 where "s2 = emit (Print (CHR 0x0A # ''Uploading '' @ path @ '' to S3 bucket ''
                                  @ fmt_opt (BUCKET cfg) @ '' with prefix '' @ PREFIX)) s1"
    have e2: "extends P s1 s2" unfolding s2_def by (intro extends_emit extends_refl pr)
    obtain r3 s3 where p3: "upload_image_to_s3 rt cfg path s2 = (r3, s3)" by fastforce
    have e3: "extends P s2 s3"
      using upload_extends[OF p3] pr up by (simp add: path_def)
    show ?thesis
    proof (cases "r3 = Inr True")
      case False
      then have "s' = s3 \<or> (\<exists>m. s' = emit (Print m) s3)"
        using run img p1 r1 p3
        by (auto simp: process_image_def Let_def path_def s2_def split: sum.splits bool.splits if_splits)
      then have "extends P s3 s'" by (auto intro: extends_emit extends_refl pr)
      with e2 e3 show ?thesis by (blast intro: extends_trans)
    next
      case r3: True
      obtain r4 s4 where p4: "analyze_image_using_rekognition rt cfg (basename img) s3 = (r4, s4)"
        by fastforce
      have e4: "extends P s3 s4" using analyze_extends[OF p4] pr dl by blast
      have "s' = s4 \<or> (\<exists>m. s' = emit (Print m) s4)
            \<or> (\<exists>labels resp. r4 = Inr (labels, Some resp)
                  \<and> report_and_store rt cfg img labels resp s4 = (r, s'))"
        using run img p1 r1 p3 r3 p4
        by (auto simp: process_image_def Let_def path_def s2_def
            split: sum.splits bool.splits if_splits list.splits option.splits)
      then have "extends P s4 s'"
      proof (elim disjE exE conjE)
        fix labels resp
        assume r4: "r4 = Inr (labels, Some resp)"
          and rs: "report_and_store rt cfg img labels resp s4 = (r, s')"
        obtain w' where dr: "detect_labels rt (BUCKET cfg) (PREFIX @ basename img) (world s3) = (Inr resp, w')"
          and lr: "Labels resp = Some labels"
          using analyze_result p4 r4 by blast
        show "extends P s4 s'"
          by (rule report_and_store_extends[where P = P, OF rs]) (simp_all add: pr put[OF dr lr])
      qed (auto intro: extends_emit extends_refl pr)
      with e2 e3 e4 show ?thesis by (blast intro: extends_trans)
    qed
  qed
qed

lemma process_image_extends:
  assumes run: "process_image rt cfg img s = (r, s')"
    and pr: "\<And>m. P (Print m)"
    and gs: "P (GetSize (os_path_join IMAGES_FOLDER img))"
    and up: "P (UploadFile (os_path_join IMAGES_FOLDER img) (BUCKET cfg) (PREFIX @ basename img))"
    and dl: "P (DetectLabels (BUCKET cfg) (PREFIX @ basename img))"
    and put: "\<And>w w' resp labels lc ts.
            detect_labels rt (BUCKET cfg) (PREFIX @ basename img) w = (Inr resp, w') \<Longrightarrow>
            Labels resp = Some labels \<Longrightarrow> timestamp_of resp = Inr ts \<Longrightarrow>
            serialize_labels rt labels = Inr lc \<Longrightarrow>
            P (PutItem (DYNAMODB cfg)
              [(''filename'', AttrS (PStr (basename img))), (''Labels'', AttrL lc),
               (''timestamp'', AttrS (PStr ts)), (''branch'', AttrS (PStr (BRANCH cfg)))])"
  shows "extends P s s'"
proof (cases "endswith_any img image_suffixes")
  case False
  with run have "s' = emit (Print (''Skipping non-image file: '' @ img)) s"
    by (simp add: process_image_def)
  then show ?thesis by (simp add: extends_emit extends_refl pr)
next
  case True
  obtain r1 s1 where p1: "image_size_validator rt (os_path_join IMAGES_FOLDER img) None s = (r1, s1)"
    by fastforce
  have "extends P s s1" using validator_extends[OF p1] gs by simp
  moreover have "extends P s1 s'"
    by (rule process_image_after_validation[where P = P, OF run True p1]) (simp_all add: pr up dl put)
  ultimately show ?thesis by (rule extends_trans)
qed

lemma extends_new_event:
  assumes "extends P s s'" and "ev \<in> set (new_events s s')"
  shows "P ev"
  using assms by (auto simp: extends_def new_events_def list_all_iff)

lemma new_events_initial [simp]: "new_events \<lparr>world = w, trace = []\<rparr> s' = trace s'"
  by (simp add: new_events_def)

subsection \<open>Serialisation\<close>

lemma serialize_label_raises:
  "serialize_label rt l = Inl x \<Longrightarrow> x = KeyError ''Name'' \<or> x = KeyError ''Confidence''"
  by (auto simp: serialize_label_def split: option.splits)

lemma serialize_label_missing:
  "map_of l ''Name'' = None \<or> map_of l ''Confidence'' = None \<Longrightarrow>
     serialize_label rt l = Inl (KeyError ''Name'') \<or> serialize_label rt l = Inl (KeyError ''Confidence'')"
  by (auto simp: serialize_label_def split: option.splits)

lemma serialize_labels_missing:
  assumes "l \<in> set labels" and "map_of l ''Name'' = None \<or> map_of l ''Confidence'' = None"
  shows "serialize_labels rt labels = Inl (KeyError ''Name'')
       \<or> serialize_labels rt labels = Inl (KeyError ''Confidence'')"
  using assms
proof (induction labels)
  case Nil
  then show ?case by simp
next
  case (Cons a labels)
  show ?case
  proof (cases "serialize_label rt a")
    case (Inl x)
    then show ?thesis using serialize_label_raises[OF Inl] by auto
  next
    case (Inr b)
    then have "a \<noteq> l" using serialize_label_missing[OF Cons.prems(2), of rt] by auto
    with Cons have "serialize_labels rt labels = Inl (KeyError ''Name'')
       \<or> serialize_labels rt labels = Inl (KeyError ''Confidence'')" by auto
    with Inr show ?thesis by auto
  qed
qed

lemma serialize_labels_Inr:
  assumes "serialize_labels rt labels = Inr lc"
  shows "list_all2 (\<lambda>l a. \<exists>n c. map_of l ''Name'' = Some n \<and> map_of l ''Confidence'' = Some c
            \<and> a = AttrM [(''Name'', AttrS n), (''Confidence'', AttrN (py_str rt c))]) labels lc"
  using assms
proof (induction labels arbitrary: lc)
  case Nil
  then show ?case by simp
next
  case (Cons l labels)
  then show ?case
    by (auto simp: serialize_label_def split: sum.splits option.splits)
qed

subsection \<open>The service calls of an iteration that stores\<close>


lemma service_calls_world [simp]: "service_calls (s\<lparr>world := w\<rparr>) = service_calls s"
  by (simp add: service_calls_def)






subsection \<open>Evaluating the concrete runtime\<close>

lemmas demo_defs = demo_runtime_def demo_config_def load_config_def getenv_default_def
  demo_response_def demo_labels_def

lemmas script_defs = process_image_def image_size_validator_def upload_image_to_s3_def
  analyze_image_using_rekognition_def store_results_in_dynamodb_def report_and_store_def
  serialize_label_def timestamp_of_def max_size_default_def emit_def Let_def
  endswith_any_def endswith_def startswith_def image_suffixes_def os_path_join_def
  IMAGES_FOLDER_def PREFIX_def basename_def fmt_opt_def ljust_def new_events_def

lemma demo_suffixes:
  "endswith_any ''a.jpg'' image_suffixes" "endswith_any ''b.png'' image_suffixes"
  "endswith_any ''d.png'' image_suffixes" "endswith_any ''e.jpeg'' image_suffixes"
  "endswith_any ''f.jpg'' image_suffixes" "\<not> endswith_any ''c.txt'' image_suffixes"
  "\<not> endswith_any ''A.JPG'' image_suffixes"
  by (simp_all add: endswith_any_def endswith_def image_suffixes_def)

lemma demo_paths:
  "os_path_join IMAGES_FOLDER ''a.jpg'' = ''images/a.jpg''"
  "os_path_join IMAGES_FOLDER ''b.png'' = ''images/b.png''"
  "os_path_join IMAGES_FOLDER ''d.png'' = ''images/d.png''"
  "os_path_join IMAGES_FOLDER ''e.jpeg'' = ''images/e.jpeg''"
  "os_path_join IMAGES_FOLDER ''f.jpg'' = ''images/f.jpg''"
  by (simp_all add: os_path_join_def IMAGES_FOLDER_def startswith_def endswith_def)


lemma demo_config_simps:
  "BUCKET demo_config = Some ''bucket''" "DYNAMODB demo_config = Some ''table''"
  "BRANCH demo_config = ''main''"
  by (simp_all add: demo_config_def load_config_def getenv_default_def)

subsection \<open>Stage gating\<close>

text \<open>
  Claim C1. A stage runs only when the stages before it succeeded, and after a file
  that was too large, could not be uploaded or could not be analysed the loop goes on
  with the next file. The docstring of \<open>upload_image_to_s3\<close> promises \<open>False\<close> for an
  upload that did not succeed, and line 127 goes on with the next image on \<open>False\<close>.
  The handler of line 40 names \<open>ClientError\<close> only, so a refused upload, which the
  client raises as \<open>S3UploadFailedError\<close>, is not turned into \<open>False\<close>. In the first
  run below the upload of \<open>d.png\<close> is refused: no analysis and no store call follow,
  but the exception leaves the loop and \<open>a.jpg\<close>, the next file, is never looked at.
  In the second run a file over the size limit and a file without labels are each
  followed by the next file.
\<close>

theorem refused_upload_ends_batch:
  "main_loop demo_runtime demo_config [''d.png'', ''a.jpg''] \<lparr>world = 0, trace = []\<rparr>
     = (Some (OtherError ''S3UploadFailedError''
          (''Failed to upload images/d.png to bucket/rekognition-input/d.png: ''
           @ ''An error occurred (AccessDenied) when calling the PutObject operation: ''
           @ ''Access Denied'')),
        \<lparr>world = 1,
         trace = [GetSize ''images/d.png'',
                  Print (CHR 0x0A # ''Uploading images/d.png to S3 bucket bucket with prefix rekognition-input/''),
                  UploadFile ''images/d.png'' (Some ''bucket'') ''rekognition-input/d.png'']\<rparr>)
   \<and> main_loop demo_runtime demo_config [''b.png'', ''e.jpeg'', ''c.txt''] \<lparr>world = 0, trace = []\<rparr>
     = (None,
        \<lparr>world = 2,
         trace = [GetSize ''images/b.png'',
                  Print ''Image images/b.png is too large. Skipping...'',
                  GetSize ''images/e.jpeg'',
                  Print (CHR 0x0A # ''Uploading images/e.jpeg to S3 bucket bucket with prefix rekognition-input/''),
                  UploadFile ''images/e.jpeg'' (Some ''bucket'') ''rekognition-input/e.jpeg'',
                  DetectLabels (Some ''bucket'') ''rekognition-input/e.jpeg'',
                  Print ''Failed to analyze images/e.jpeg. Skipping analysis.'',
                  Print ''Skipping non-image file: c.txt'']\<rparr>)"
  by (simp add: demo_defs script_defs)

subsection \<open>Failures of the service calls\<close>

text \<open>
  Claim C2. A failure of the upload, the analysis or the store becomes a boolean or
  the empty list and is logged, no exception raised inside the loop ends the batch, and
  the upload returns false on any transport or service error; the docstring of
  \<open>upload_image_to_s3\<close> says the same: true when the upload was successful, false
  otherwise. The handlers name \<open>ClientError\<close> only, and the loop has no handler of its
  own. Without a network the upload raises a connection error, which is not a
  \<open>ClientError\<close>: \<open>upload_image_to_s3\<close> raises it instead of returning false, the loop
  ends with it, and the second file is never looked at.
\<close>

theorem transport_error_ends_batch:
  "upload_image_to_s3 offline_runtime demo_config ''images/a.jpg'' \<lparr>world = 0, trace = []\<rparr>
     = (Inl (OtherError ''EndpointConnectionError'' ''Could not connect to the endpoint URL''),
        \<lparr>world = 0,
         trace = [UploadFile ''images/a.jpg'' (Some ''bucket'') ''rekognition-input/a.jpg'']\<rparr>)
   \<and> main_loop offline_runtime demo_config [''a.jpg'', ''f.jpg''] \<lparr>world = 0, trace = []\<rparr>
     = (Some (OtherError ''EndpointConnectionError'' ''Could not connect to the endpoint URL''),
        \<lparr>world = 0,
         trace = [GetSize ''images/a.jpg'',
                  Print (CHR 0x0A # ''Uploading images/a.jpg to S3 bucket bucket with prefix rekognition-input/''),
                  UploadFile ''images/a.jpg'' (Some ''bucket'') ''rekognition-input/a.jpg'']\<rparr>)"
  by (simp add: offline_runtime_def demo_defs script_defs)

subsection \<open>The size validator\<close>

text \<open>
  Claim C3. For every file and every bound, the validator answers true exactly when the
  size of the file is at most the bound; without a bound it uses 5,242,880 bytes. It
  reads the size and does nothing else: the world is unchanged and the only event is
  the read.
\<close>

theorem image_size_validator_correct:
  assumes "getsize rt image_path (world s) = Inr n"
  shows "fst (image_size_validator rt image_path (Some max_bytes) s) = Inr (int n \<le> max_bytes)
       \<and> fst (image_size_validator rt image_path None s) = Inr (n \<le> 5242880)
       \<and> world (snd (image_size_validator rt image_path m s)) = world s
       \<and> trace (snd (image_size_validator rt image_path m s)) = trace s @ [GetSize image_path]"
  using assms by (simp add: image_size_validator_def max_size_default_def Let_def)

theorem image_size_validator_correct_witness:
  "getsize demo_runtime ''images/b.png'' (world \<lparr>world = 0, trace = []\<rparr>) = Inr 6291456
   \<and> fst (image_size_validator demo_runtime ''images/b.png'' (Some 6291456) \<lparr>world = 0, trace = []\<rparr>)
       = Inr True
   \<and> fst (image_size_validator demo_runtime ''images/b.png'' None \<lparr>world = 0, trace = []\<rparr>)
       = Inr False
   \<and> world (snd (image_size_validator demo_runtime ''images/b.png'' None \<lparr>world = 0, trace = []\<rparr>)) = 0
   \<and> trace (snd (image_size_validator demo_runtime ''images/b.png'' None \<lparr>world = 0, trace = []\<rparr>))
       = [GetSize ''images/b.png'']"
proof -
  have h: "getsize demo_runtime ''images/b.png'' (world \<lparr>world = (0::nat), trace = []\<rparr>) = Inr 6291456"
    by (simp add: demo_runtime_def)
  show ?thesis
    using h image_size_validator_correct [OF h, of 6291456 None]
    by simp
qed

subsection \<open>Object keys\<close>

text \<open>
  Claim C4. In one iteration of the loop, the key of the upload and the object name of
  the analysis are both \<open>rekognition-input/\<close> followed by the basename of the file. The
  key of an upload depends on the file name only, not on the directory: a file
  \<open>cat.png\<close> in any directory goes to \<open>rekognition-input/cat.png\<close>.
\<close>

theorem object_key_from_basename:
  fixes rt :: "('f, 'w) runtime"
  shows
   "(\<forall>r s' ev. process_image rt cfg img s = (r, s') \<and> ev \<in> set (new_events s s') \<longrightarrow>
        (\<forall>f b k. ev = UploadFile f b k \<longrightarrow> k = ''rekognition-input/'' @ basename img)
      \<and> (\<forall>b k. ev = DetectLabels b k \<longrightarrow> k = ''rekognition-input/'' @ basename img))
    \<and> (\<forall>dir name. CHR ''/'' \<notin> set name \<longrightarrow>
         (\<exists>rest. new_events s (snd (upload_image_to_s3 rt cfg (dir @ ''/'' @ name) s))
            = UploadFile (dir @ ''/'' @ name) (BUCKET cfg) (''rekognition-input/'' @ name) # rest))
    \<and> (\<forall>dir. \<exists>rest. new_events s (snd (upload_image_to_s3 rt cfg (dir @ ''/cat.png'') s))
            = UploadFile (dir @ ''/cat.png'') (BUCKET cfg) ''rekognition-input/cat.png'' # rest)"
proof -
  have A: "(\<forall>f b k. ev = UploadFile f b k \<longrightarrow> k = ''rekognition-input/'' @ basename img)
      \<and> (\<forall>b k. ev = DetectLabels b k \<longrightarrow> k = ''rekognition-input/'' @ basename img)"
    if run: "process_image rt cfg img s = (r, s')" and ev: "ev \<in> set (new_events s s')"
    for r s' ev
  proof -
    let ?P = "\<lambda>ev. case ev of
         UploadFile f b k \<Rightarrow> k = PREFIX @ basename img
       | DetectLabels b k \<Rightarrow> k = PREFIX @ basename img
       | _ \<Rightarrow> True"
    have "extends ?P s s'"
      by (rule process_image_extends[OF run]) simp_all
    then have "?P ev" using ev by (rule extends_new_event)
    then show ?thesis by (auto simp: PREFIX_def)
  qed
  have up: "\<exists>rest. new_events s (snd (upload_image_to_s3 rt cfg p s))
            = UploadFile p (BUCKET cfg) (''rekognition-input/'' @ basename p) # rest" for p
    by (auto simp: upload_image_to_s3_def Let_def new_events_def PREFIX_def
        split: prod.splits sum.splits py_exn.splits)
  have B: "\<exists>rest. new_events s (snd (upload_image_to_s3 rt cfg (dir @ ''/'' @ name) s))
            = UploadFile (dir @ ''/'' @ name) (BUCKET cfg) (''rekognition-input/'' @ name) # rest"
    if "CHR ''/'' \<notin> set name" for dir name
  proof -
    have "basename (dir @ ''/'' @ name) = name"
      using that by (simp add: basename_after_slash basename_no_slash)
    then show ?thesis using up[of "dir @ ''/'' @ name"] by simp
  qed
  have C: "\<exists>rest. new_events s (snd (upload_image_to_s3 rt cfg (dir @ ''/cat.png'') s))
            = UploadFile (dir @ ''/cat.png'') (BUCKET cfg) ''rekognition-input/cat.png'' # rest"
    for dir
    using B[of "''cat.png''" dir] by simp
  show ?thesis
    using A B C by blast
qed

theorem object_key_from_basename_witness:
  "UploadFile ''images/a.jpg'' (Some ''bucket'') ''rekognition-input/a.jpg''
      \<in> set (new_events \<lparr>world = 0, trace = []\<rparr>
             (snd (process_image demo_runtime demo_config ''a.jpg'' \<lparr>world = 0, trace = []\<rparr>)))
   \<and> DetectLabels (Some ''bucket'') ''rekognition-input/a.jpg''
      \<in> set (new_events \<lparr>world = 0, trace = []\<rparr>
             (snd (process_image demo_runtime demo_config ''a.jpg'' \<lparr>world = 0, trace = []\<rparr>)))
   \<and> ''rekognition-input/'' @ basename ''a.jpg'' = ''rekognition-input/a.jpg''
   \<and> CHR ''/'' \<notin> set ''dog.jpeg''
   \<and> new_events \<lparr>world = 0, trace = []\<rparr>
        (snd (upload_image_to_s3 demo_runtime demo_config ''/home/runner/pics/dog.jpeg''
               \<lparr>world = 0, trace = []\<rparr>))
       = [UploadFile ''/home/runner/pics/dog.jpeg'' (Some ''bucket'') ''rekognition-input/dog.jpeg'']"
proof -
  let ?s = "\<lparr>world = 0::nat, trace = [] :: string event list\<rparr>"
  let ?a = "process_image demo_runtime demo_config ''a.jpg'' ?s"
  note T = object_key_from_basename[where rt = demo_runtime and cfg = demo_config
      and img = "''a.jpg''" and s = ?s]
  have ra: "?a = (fst ?a, snd ?a)" by simp
  have u: "UploadFile ''images/a.jpg'' (Some ''bucket'') ''rekognition-input/a.jpg''
      \<in> set (new_events ?s (snd ?a))"
    and d: "DetectLabels (Some ''bucket'') ''rekognition-input/a.jpg'' \<in> set (new_events ?s (snd ?a))"
    by (simp_all add: demo_defs script_defs)
  from T ra u have k: "''rekognition-input/a.jpg'' = ''rekognition-input/'' @ basename ''a.jpg''"
    by blast
  have ns: "CHR ''/'' \<notin> set ''dog.jpeg''" by simp
  from T ns obtain rest where
    "new_events ?s (snd (upload_image_to_s3 demo_runtime demo_config
        (''/home/runner/pics'' @ ''/'' @ ''dog.jpeg'') ?s))
     = UploadFile (''/home/runner/pics'' @ ''/'' @ ''dog.jpeg'') (BUCKET demo_config)
         (''rekognition-input/'' @ ''dog.jpeg'') # rest"
    by blast
  then have up: "new_events ?s (snd (upload_image_to_s3 demo_runtime demo_config
        ''/home/runner/pics/dog.jpeg'' ?s))
     = [UploadFile ''/home/runner/pics/dog.jpeg'' (Some ''bucket'') ''rekognition-input/dog.jpeg'']"
    by (simp add: demo_defs script_defs)
  show ?thesis using u d k ns up by simp
qed

subsection \<open>The extension filter\<close>

text \<open>
  Claim C5. The loop body starts the pipeline, whose first step reads the size of the
  file, exactly when the name ends in \<open>.jpg\<close>, \<open>.jpeg\<close> or \<open>.png\<close>, in this spelling.
  For any other name it prints one line and does nothing else.
\<close>

theorem extension_filter:
  fixes rt :: "('f, 'w) runtime"
  shows
   "((\<exists>stem. img = stem @ ''.jpg'' \<or> img = stem @ ''.jpeg'' \<or> img = stem @ ''.png'')
       \<longleftrightarrow> (\<exists>rest. new_events s (snd (process_image rt cfg img s))
                    = GetSize (os_path_join IMAGES_FOLDER img) # rest))
    \<and> (\<not> (\<exists>stem. img = stem @ ''.jpg'' \<or> img = stem @ ''.jpeg'' \<or> img = stem @ ''.png'')
       \<longrightarrow> process_image rt cfg img s
             = (Inr (), emit (Print (''Skipping non-image file: '' @ img)) s))"
proof -
  obtain r s' where run: "process_image rt cfg img s = (r, s')" by fastforce
  have yes: "\<exists>rest. new_events s s' = GetSize (os_path_join IMAGES_FOLDER img) # rest"
    if img: "endswith_any img image_suffixes"
  proof -
    obtain r1 s1 where p1: "image_size_validator rt (os_path_join IMAGES_FOLDER img) None s = (r1, s1)"
      by fastforce
    then have t1: "trace s1 = trace s @ [GetSize (os_path_join IMAGES_FOLDER img)]"
      by (auto simp: image_size_validator_def Let_def split: sum.splits)
    have "extends (\<lambda>_. True) s1 s'"
      by (rule process_image_after_validation[OF run img p1]) simp_all
    then show ?thesis using t1 by (auto simp: extends_def new_events_def)
  qed
  have no: "process_image rt cfg img s = (Inr (), emit (Print (''Skipping non-image file: '' @ img)) s)"
    if "\<not> endswith_any img image_suffixes"
    using that by (simp add: process_image_def)
  have no': "\<not> (\<exists>rest. new_events s s' = GetSize (os_path_join IMAGES_FOLDER img) # rest)"
    if "\<not> endswith_any img image_suffixes"
    using no[OF that] run by (auto simp: new_events_def)
  show ?thesis
    using yes no no' run by (auto simp: is_image_iff[symmetric] simp del: ex_simps)
qed

theorem extension_filter_witness:
  "(\<exists>rest. new_events \<lparr>world = 0, trace = []\<rparr>
        (snd (process_image demo_runtime demo_config ''a.jpg'' \<lparr>world = 0, trace = []\<rparr>))
       = GetSize ''images/a.jpg'' # rest)
   \<and> process_image demo_runtime demo_config ''c.txt'' \<lparr>world = 0, trace = []\<rparr>
       = (Inr (), \<lparr>world = 0, trace = [Print ''Skipping non-image file: c.txt'']\<rparr>)
   \<and> process_image demo_runtime demo_config ''A.JPG'' \<lparr>world = 0, trace = []\<rparr>
       = (Inr (), \<lparr>world = 0, trace = [Print ''Skipping non-image file: A.JPG'']\<rparr>)"
proof -
  let ?s = "\<lparr>world = 0::nat, trace = [] :: string event list\<rparr>"
  have a: "\<exists>stem. ''a.jpg'' = stem @ ''.jpg'' \<or> ''a.jpg'' = stem @ ''.jpeg'' \<or> ''a.jpg'' = stem @ ''.png''"
    by (rule exI[of _ "''a''"]) simp
  have c: "\<not> (\<exists>stem. ''c.txt'' = stem @ ''.jpg'' \<or> ''c.txt'' = stem @ ''.jpeg'' \<or> ''c.txt'' = stem @ ''.png'')"
    unfolding is_image_iff[symmetric] by (rule demo_suffixes(6))
  have u: "\<not> (\<exists>stem. ''A.JPG'' = stem @ ''.jpg'' \<or> ''A.JPG'' = stem @ ''.jpeg'' \<or> ''A.JPG'' = stem @ ''.png'')"
    unfolding is_image_iff[symmetric] by (rule demo_suffixes(7))
  from a extension_filter[where rt = demo_runtime and cfg = demo_config and img = "''a.jpg''" and s = ?s]
  have A: "\<exists>rest. new_events ?s (snd (process_image demo_runtime demo_config ''a.jpg'' ?s))
       = GetSize (os_path_join IMAGES_FOLDER ''a.jpg'') # rest"
    by blast
  from c extension_filter[where rt = demo_runtime and cfg = demo_config and img = "''c.txt''" and s = ?s]
  have C: "process_image demo_runtime demo_config ''c.txt'' ?s
       = (Inr (), emit (Print (''Skipping non-image file: '' @ ''c.txt'')) ?s)"
    by blast
  from u extension_filter[where rt = demo_runtime and cfg = demo_config and img = "''A.JPG''" and s = ?s]
  have U: "process_image demo_runtime demo_config ''A.JPG'' ?s
       = (Inr (), emit (Print (''Skipping non-image file: '' @ ''A.JPG'')) ?s)"
    by blast
  show ?thesis
    using A unfolding C U demo_paths by (simp add: emit_def)
qed

subsection \<open>The analyzer\<close>

text \<open>
  Claim C6. When the service answers with a \<open>ClientError\<close>, the analyzer returns the
  empty list and \<open>None\<close>, and prints the error. When the service answers with a
  response, the analyzer returns the list under \<open>Labels\<close> as it is, and the response
  itself.
\<close>

theorem analyzer_results:
  fixes rt :: "('f, 'w) runtime"
  defines "call \<equiv> \<lambda>cfg image_name. DetectLabels (BUCKET cfg) (PREFIX @ image_name)"
  shows
   "(\<forall>e w'. detect_labels rt (BUCKET cfg) (PREFIX @ image_name) (world s) = (Inl (ClientError e), w') \<longrightarrow>
       analyze_image_using_rekognition rt cfg image_name s
         = (Inr ([], None),
            s\<lparr>world := w',
              trace := trace s @ [call cfg image_name,
                  Print (''Error analyzing '' @ image_name @ '' with Rekognition: '' @ e)]\<rparr>))
    \<and> (\<forall>response labels w'.
         detect_labels rt (BUCKET cfg) (PREFIX @ image_name) (world s) = (Inr response, w')
         \<and> Labels response = Some labels \<longrightarrow>
       analyze_image_using_rekognition rt cfg image_name s
         = (Inr (labels, Some response),
            s\<lparr>world := w', trace := trace s @ [call cfg image_name]\<rparr>))"
  by (simp add: analyze_image_using_rekognition_def Let_def emit_def call_def)

theorem analyzer_results_witness:
  "analyze_image_using_rekognition demo_runtime demo_config ''f.jpg'' \<lparr>world = 0, trace = []\<rparr>
     = (Inr ([], None),
        \<lparr>world = 1,
         trace = [DetectLabels (Some ''bucket'') ''rekognition-input/f.jpg'',
                  Print ''Error analyzing f.jpg with Rekognition: InvalidS3ObjectException'']\<rparr>)
   \<and> analyze_image_using_rekognition demo_runtime demo_config ''a.jpg'' \<lparr>world = 0, trace = []\<rparr>
     = (Inr (demo_labels, Some demo_response),
        \<lparr>world = 1, trace = [DetectLabels (Some ''bucket'') ''rekognition-input/a.jpg'']\<rparr>)"
proof -
  let ?s = "\<lparr>world = 0::nat, trace = [] :: string event list\<rparr>"
  have f: "detect_labels demo_runtime (BUCKET demo_config) (PREFIX @ ''f.jpg'') (world ?s)
             = (Inl (ClientError ''InvalidS3ObjectException''), 1)"
    by (simp add: demo_defs PREFIX_def)
  have a: "detect_labels demo_runtime (BUCKET demo_config) (PREFIX @ ''a.jpg'') (world ?s)
             = (Inr demo_response, 1) \<and> Labels demo_response = Some demo_labels"
    by (simp add: demo_defs PREFIX_def)
  from f analyzer_results[where rt = demo_runtime and cfg = demo_config
      and image_name = "''f.jpg''" and s = ?s]
  have F: "analyze_image_using_rekognition demo_runtime demo_config ''f.jpg'' ?s
     = (Inr ([], None), ?s\<lparr>world := 1,
          trace := trace ?s @ [DetectLabels (BUCKET demo_config) (PREFIX @ ''f.jpg''),
             Print (''Error analyzing '' @ ''f.jpg'' @ '' with Rekognition: '' @ ''InvalidS3ObjectException'')]\<rparr>)"
    by blast
  from a analyzer_results[where rt = demo_runtime and cfg = demo_config
      and image_name = "''a.jpg''" and s = ?s]
  have A: "analyze_image_using_rekognition demo_runtime demo_config ''a.jpg'' ?s
     = (Inr (demo_labels, Some demo_response), ?s\<lparr>world := 1,
          trace := trace ?s @ [DetectLabels (BUCKET demo_config) (PREFIX @ ''a.jpg'')]\<rparr>)"
    by blast
  show ?thesis
    unfolding F A by (simp add: demo_config_simps PREFIX_def)
qed

subsection \<open>The stored record\<close>

text \<open>
  Claim C7. Whenever the store writes an item, its \<open>Labels\<close> attribute is a list as
  long as the list of labels it was given, and the element at each position carries the
  \<open>Name\<close> of the label at that position and \<open>str\<close> of its \<open>Confidence\<close>.
\<close>

theorem stored_labels_preserve_order:
  fixes rt :: "('f, 'w) runtime"
  assumes run: "store_results_in_dynamodb rt cfg image_name labels timestamp s = (r, s')"
    and new: "PutItem t item \<in> set (new_events s s')"
  shows "\<exists>stored. map_of item ''Labels'' = Some (AttrL stored)
      \<and> length stored = length labels
      \<and> (\<forall>i<length labels. \<exists>n c.
            map_of (labels ! i) ''Name'' = Some n \<and> map_of (labels ! i) ''Confidence'' = Some c
            \<and> stored ! i = AttrM [(''Name'', AttrS n), (''Confidence'', AttrN (py_str rt c))])"
proof -
  let ?enc = "\<lambda>l a. \<exists>n c. map_of l ''Name'' = Some n \<and> map_of l ''Confidence'' = Some c
            \<and> a = AttrM [(''Name'', AttrS n), (''Confidence'', AttrN (py_str rt c))]"
  let ?P = "\<lambda>ev. case ev of
              PutItem t item \<Rightarrow> (\<exists>lc. map_of item ''Labels'' = Some (AttrL lc) \<and> list_all2 ?enc labels lc)
            | _ \<Rightarrow> True"
  have "extends ?P s s'"
    by (rule store_extends[OF run]) (auto dest: serialize_labels_Inr)
  then have "?P (PutItem t item)"
    using new by (rule extends_new_event)
  then obtain lc where lc: "map_of item ''Labels'' = Some (AttrL lc)" "list_all2 ?enc labels lc"
    by auto
  from lc(2) have "length lc = length labels"
    and "\<forall>i<length labels. ?enc (labels ! i) (lc ! i)"
    by (auto simp: list_all2_conv_all_nth)
  with lc(1) show ?thesis by auto
qed

theorem stored_labels_preserve_order_witness:
  "\<exists>item stored.
     store_results_in_dynamodb demo_runtime demo_config ''a.jpg''
       [[(''Name'', PStr ''Cat''), (''Confidence'', PFloat ''98.2'')],
        [(''Name'', PStr ''Animal''), (''Confidence'', PFloat ''95.0'')]]
       ''Wed, 04 Nov 2026 09:00:00 GMT'' \<lparr>world = 0, trace = []\<rparr>
     = (Inr True, \<lparr>world = 1, trace = [PutItem (Some ''table'') item]\<rparr>)
   \<and> map_of item ''Labels'' = Some (AttrL stored)
   \<and> stored = [AttrM [(''Name'', AttrS (PStr ''Cat'')), (''Confidence'', AttrN ''98.2'')],
                AttrM [(''Name'', AttrS (PStr ''Animal'')), (''Confidence'', AttrN ''95.0'')]]"
proof -
  let ?s = "\<lparr>world = 0::nat, trace = [] :: string event list\<rparr>"
  let ?labels = "[[(''Name'', PStr ''Cat''), (''Confidence'', PFloat ''98.2'')],
                  [(''Name'', PStr ''Animal''), (''Confidence'', PFloat ''95.0'')]] :: string label list"
  let ?item = "[(''filename'', AttrS (PStr ''a.jpg'')),
            (''Labels'', AttrL
               [AttrM [(''Name'', AttrS (PStr ''Cat'')), (''Confidence'', AttrN ''98.2'')],
                AttrM [(''Name'', AttrS (PStr ''Animal'')), (''Confidence'', AttrN ''95.0'')]]),
            (''timestamp'', AttrS (PStr ''Wed, 04 Nov 2026 09:00:00 GMT'')),
            (''branch'', AttrS (PStr ''main''))] :: string item"
  let ?s' = "\<lparr>world = 1::nat, trace = [PutItem (Some ''table'') ?item]\<rparr>"
  have run: "store_results_in_dynamodb demo_runtime demo_config ''a.jpg'' ?labels
       ''Wed, 04 Nov 2026 09:00:00 GMT'' ?s = (Inr True, ?s')"
    by (simp add: demo_defs script_defs)
  have new: "PutItem (Some ''table'') ?item \<in> set (new_events ?s ?s')"
    by (simp add: new_events_def)
  from stored_labels_preserve_order[OF run new]
  obtain stored where st: "map_of ?item ''Labels'' = Some (AttrL stored)"
    and len: "length stored = length ?labels"
    and el: "\<forall>i<length ?labels. \<exists>n c.
            map_of (?labels ! i) ''Name'' = Some n \<and> map_of (?labels ! i) ''Confidence'' = Some c
            \<and> stored ! i = AttrM [(''Name'', AttrS n), (''Confidence'', AttrN (py_str demo_runtime c))]"
    by blast
  have e0: "stored ! 0 = AttrM [(''Name'', AttrS (PStr ''Cat'')), (''Confidence'', AttrN ''98.2'')]"
    using el[rule_format, of 0] by (auto simp: demo_runtime_def)
  have e1: "stored ! 1 = AttrM [(''Name'', AttrS (PStr ''Animal'')), (''Confidence'', AttrN ''95.0'')]"
    using el[rule_format, of 1] by (auto simp: demo_runtime_def)
  have "stored = [stored ! 0, stored ! 1]"
    using len by (auto simp: list_eq_iff_nth_eq less_Suc_eq)
  with e0 e1 have eq: "stored = [AttrM [(''Name'', AttrS (PStr ''Cat'')), (''Confidence'', AttrN ''98.2'')],
                AttrM [(''Name'', AttrS (PStr ''Animal'')), (''Confidence'', AttrN ''95.0'')]]"
    by simp
  show ?thesis
    by (rule exI[of _ ?item], rule exI[of _ stored]) (rule conjI[OF run conjI[OF st eq]])
qed

text \<open>
  Claim C8. Every item written in a run carries the same \<open>branch\<close>, computed once when
  the script starts: the name of the branch of \<open>GITHUB_REF\<close>, or \<open>main\<close> when that is
  unset. The comment of line 17 says the same: extract the branch name. Line 17 keeps
  what follows the last slash of the ref. For the branch \<open>feature/x\<close> the ref is
  \<open>refs/heads/feature/x\<close> and the value is \<open>x\<close>, the same as for the branch
  \<open>hotfix/x\<close>; for the ref of a pull request it is \<open>merge\<close>. The item written in a
  run on \<open>feature/x\<close> carries \<open>x\<close>.
\<close>

theorem branch_keeps_last_segment_only:
  "BRANCH (load_config [''GITHUB_REF'' \<mapsto> ''refs/heads/feature/x'']) = ''x''
   \<and> BRANCH (load_config [''GITHUB_REF'' \<mapsto> ''refs/heads/hotfix/x'']) = ''x''
   \<and> BRANCH (load_config [''GITHUB_REF'' \<mapsto> ''refs/pull/12/merge'']) = ''merge''
   \<and> service_calls (snd (main demo_runtime
          [''S3_BUCKET'' \<mapsto> ''bucket'', ''DYNAMODB_TABLE'' \<mapsto> ''table'',
           ''GITHUB_REF'' \<mapsto> ''refs/heads/feature/x'']
          [''a.jpg''] 0))
     = [UploadFile ''images/a.jpg'' (Some ''bucket'') ''rekognition-input/a.jpg'',
        DetectLabels (Some ''bucket'') ''rekognition-input/a.jpg'',
        PutItem (Some ''table'')
          [(''filename'', AttrS (PStr ''a.jpg'')),
           (''Labels'', AttrL
              [AttrM [(''Name'', AttrS (PStr ''Cat'')), (''Confidence'', AttrN ''98.2'')],
               AttrM [(''Name'', AttrS (PStr ''Animal'')), (''Confidence'', AttrN ''95.0'')]]),
           (''timestamp'', AttrS (PStr ''Wed, 04 Nov 2026 09:00:00 GMT'')),
           (''branch'', AttrS (PStr ''x''))]]"
  by (simp add: main_def service_calls_def demo_defs script_defs)



text \<open>
  Claim C10. A label without \<open>Name\<close> or without \<open>Confidence\<close> prints no row in the
  table. A list of labels that holds such a label makes the store raise \<open>KeyError\<close>
  before it calls the service; its handler does not catch it.
\<close>

theorem missing_label_key_escapes_store:
  fixes rt :: "('f, 'w) runtime"
  assumes missing: "map_of label ''Name'' = None \<or> map_of label ''Confidence'' = None"
  shows "print_rows rt (label # rest) s = print_rows rt rest s
    \<and> (label \<in> set labels \<longrightarrow>
         store_results_in_dynamodb rt cfg image_name labels timestamp s = (Inl (KeyError ''Name''), s)
         \<or> store_results_in_dynamodb rt cfg image_name labels timestamp s = (Inl (KeyError ''Confidence''), s))"
proof
  show "print_rows rt (label # rest) s = print_rows rt rest s"
    using missing by (auto split: option.splits)
next
  show "label \<in> set labels \<longrightarrow>
         store_results_in_dynamodb rt cfg image_name labels timestamp s = (Inl (KeyError ''Name''), s)
         \<or> store_results_in_dynamodb rt cfg image_name labels timestamp s = (Inl (KeyError ''Confidence''), s)"
  proof
    assume "label \<in> set labels"
    then have "serialize_labels rt labels = Inl (KeyError ''Name'')
       \<or> serialize_labels rt labels = Inl (KeyError ''Confidence'')"
      using missing by (rule serialize_labels_missing)
    then show "store_results_in_dynamodb rt cfg image_name labels timestamp s = (Inl (KeyError ''Name''), s)
         \<or> store_results_in_dynamodb rt cfg image_name labels timestamp s = (Inl (KeyError ''Confidence''), s)"
      by (auto simp: store_results_in_dynamodb_def)
  qed
qed

theorem missing_label_key_escapes_store_witness:
  "map_of [(''Name'', PStr ''Cat'')] ''Confidence'' = (None :: string pyval option)
   \<and> print_rows demo_runtime [[(''Name'', PStr ''Cat'')]] \<lparr>world = 0, trace = []\<rparr>
       = (Inr (), \<lparr>world = 0, trace = []\<rparr>)
   \<and> store_results_in_dynamodb demo_runtime demo_config ''a.jpg''
         [[(''Name'', PStr ''Animal''), (''Confidence'', PFloat ''95.0'')], [(''Name'', PStr ''Cat'')]]
         ''Unknown'' \<lparr>world = 0, trace = []\<rparr>
       = (Inl (KeyError ''Confidence''), \<lparr>world = 0, trace = []\<rparr>)"
proof -
  let ?s = "\<lparr>world = 0::nat, trace = [] :: string event list\<rparr>"
  let ?l = "[(''Name'', PStr ''Cat'')] :: string label"
  let ?ls = "[[(''Name'', PStr ''Animal''), (''Confidence'', PFloat ''95.0'')], ?l]"
  have m: "map_of ?l ''Name'' = None \<or> map_of ?l ''Confidence'' = None" by simp
  have i: "?l \<in> set ?ls" by simp
  note T = missing_label_key_escapes_store[OF m, where rt = demo_runtime and rest = "[]"
      and s = ?s and labels = ?ls and cfg = demo_config and image_name = "''a.jpg''"
      and timestamp = "''Unknown''"]
  from T have p: "print_rows demo_runtime [?l] ?s = (Inr (), ?s)" by simp
  from T i have "store_results_in_dynamodb demo_runtime demo_config ''a.jpg'' ?ls ''Unknown'' ?s
         = (Inl (KeyError ''Name''), ?s)
       \<or> store_results_in_dynamodb demo_runtime demo_config ''a.jpg'' ?ls ''Unknown'' ?s
         = (Inl (KeyError ''Confidence''), ?s)" by blast
  then have st: "store_results_in_dynamodb demo_runtime demo_config ''a.jpg'' ?ls ''Unknown'' ?s
         = (Inl (KeyError ''Confidence''), ?s)"
    by (simp add: demo_defs script_defs)
  show ?thesis using p st by simp
qed

end
